theory Spec2Isabelle
  imports Complex_Main
begin

section \<open>Python values, dictionaries and exceptions\<close>

text \<open>
  The scanner is written in Python.  Numbers (Python \<open>int\<close> and \<open>float\<close>) are modelled
  as mathematical reals: the scoring contract is stated over real numbers, and rounding of
  binary floating point is outside this model.  Every exception the modelled code can raise
  is a value of \<open>py_error\<close>, and a function that may raise returns \<open>py_error + 'a\<close>
  with \<open>Inl\<close> carrying the exception.
\<close>

datatype py_error =
    KeyError string | ZeroDivisionError | ValueError | TypeError
  | FileNotFoundError | SubprocessError | OSError

text \<open>
  A dictionary is an association list in insertion order.  A Python dictionary never holds
  a key twice, so the lists of interest have distinct keys.
\<close>

type_synonym 'v dict = "(string \<times> 'v) list"

definition py_bind :: "py_error + 'a \<Rightarrow> ('a \<Rightarrow> py_error + 'b) \<Rightarrow> py_error + 'b" where
  "py_bind r f = (case r of Inl e \<Rightarrow> Inl e | Inr x \<Rightarrow> f x)"

text \<open>\<open>d[k]\<close>: raises \<open>KeyError\<close> when the key is missing.\<close>

definition getitem :: "'v dict \<Rightarrow> string \<Rightarrow> py_error + 'v" where
  "getitem d k = (case map_of d k of None \<Rightarrow> Inl (KeyError k) | Some v \<Rightarrow> Inr v)"

text \<open>\<open>k in d\<close>.\<close>

definition contains :: "'v dict \<Rightarrow> string \<Rightarrow> bool" where
  "contains d k = (map_of d k \<noteq> None)"

text \<open>\<open>d.values()\<close>.\<close>

definition dict_values :: "'v dict \<Rightarrow> 'v list" where
  "dict_values d = map snd d"

text \<open>\<open>a / b\<close>: true division raises \<open>ZeroDivisionError\<close> on a zero divisor.\<close>

definition truediv :: "real \<Rightarrow> real \<Rightarrow> py_error + real" where
  "truediv a b = (if b = 0 then Inl ZeroDivisionError else Inr (a / b))"

section \<open>scoring/normalizer.py: ScoreNormalizer\<close>

definition normalize :: "real \<Rightarrow> real \<Rightarrow> real \<Rightarrow> py_error + real" where
  "normalize v min_value max_value =
     (if max_value = min_value then Inr 0
      else py_bind (truediv (v - min_value) (max_value - min_value))
             (\<lambda>q. let normalized = q * 100 in Inr (max 0 (min 100 normalized))))"

definition normalize_inverse :: "real \<Rightarrow> real \<Rightarrow> real \<Rightarrow> py_error + real" where
  "normalize_inverse v min_value max_value =
     py_bind (normalize v min_value max_value) (\<lambda>n. Inr (100 - n))"

definition normalize_complexity :: "real \<Rightarrow> real \<Rightarrow> real \<Rightarrow> py_error + real" where
  "normalize_complexity v ideal worst = normalize v ideal worst"

definition normalize_percentage :: "real \<Rightarrow> real \<Rightarrow> real \<Rightarrow> py_error + real" where
  "normalize_percentage v ideal worst = normalize v ideal worst"

definition normalize_inverse_percentage :: "real \<Rightarrow> real \<Rightarrow> real \<Rightarrow> py_error + real" where
  "normalize_inverse_percentage v ideal worst = normalize_inverse v worst ideal"

definition normalize_count :: "real \<Rightarrow> real \<Rightarrow> real \<Rightarrow> py_error + real" where
  "normalize_count v ideal worst = normalize v ideal worst"

definition normalize_ratio :: "real \<Rightarrow> real \<Rightarrow> real \<Rightarrow> py_error + real" where
  "normalize_ratio v ideal worst =
     (if ideal > worst then normalize_inverse v worst ideal
      else normalize v ideal worst)"

definition normalize_churn :: "real \<Rightarrow> real \<Rightarrow> real \<Rightarrow> py_error + real" where
  "normalize_churn v ideal worst = normalize v ideal worst"

text \<open>\<open>d[k1][k2]\<close> on a dictionary of dictionaries.\<close>

definition getitem2 :: "('v dict) dict \<Rightarrow> string \<Rightarrow> string \<Rightarrow> py_error + 'v" where
  "getitem2 d k1 k2 = py_bind (getitem d k1) (\<lambda>inner. getitem inner k2)"

section \<open>scoring/thresholds.py: DebtThresholds\<close>

text \<open>
  The configuration is a dictionary of sections; the sections read by the modelled code
  (\<open>thresholds\<close>, \<open>weights\<close>, \<open>dependencies\<close>, \<open>test_quality\<close>) are dictionaries of
  numbers.  The constructor stores \<open>config['thresholds']\<close> in the attribute
  \<open>thresholds\<close>, which is all that \<open>get_debt_level\<close> reads.
\<close>

type_synonym config = "(real dict) dict"

definition DebtThresholds_init :: "config \<Rightarrow> py_error + real dict" where
  "DebtThresholds_init config = getitem config ''thresholds''"

definition get_debt_level :: "real dict \<Rightarrow> real \<Rightarrow> py_error + string" where
  "get_debt_level thresholds score =
     py_bind (getitem thresholds ''high'') (\<lambda>high.
       if score \<ge> high then Inr ''high''
       else py_bind (getitem thresholds ''medium'') (\<lambda>medium.
         if score \<ge> medium then Inr ''medium''
         else Inr ''low''))"

section \<open>scoring/aggregator.py: ScoreAggregator\<close>

text \<open>
  \<open>metrics\<close> maps each category to its summary.  The aggregator reads one numeric field
  of each summary, so a summary is modelled by its numeric fields.  \<open>weighted_term\<close> is one
  summand \<open>category_scores[c] * weights[c]\<close>; the summands are evaluated left to right.
\<close>

definition weighted_term :: "real dict \<Rightarrow> real dict \<Rightarrow> string \<Rightarrow> py_error + real" where
  "weighted_term category_scores weights c =
     py_bind (getitem category_scores c) (\<lambda>s.
     py_bind (getitem weights c) (\<lambda>w. Inr (s * w)))"

definition aggregate :: "config \<Rightarrow> (real dict) dict \<Rightarrow> py_error + (real \<times> real dict)" where
  "aggregate config metrics =
     py_bind (getitem2 metrics ''complexity'' ''overall_score'') (\<lambda>complexity.
     py_bind (getitem2 metrics ''duplication'' ''score'') (\<lambda>duplication.
     py_bind (getitem2 metrics ''test_quality'' ''overall_score'') (\<lambda>test_quality.
     py_bind (getitem2 metrics ''dependencies'' ''score'') (\<lambda>dependencies.
     py_bind (getitem2 metrics ''churn'' ''score'') (\<lambda>churn.
     py_bind (getitem2 metrics ''readability'' ''score'') (\<lambda>readability.
     let category_scores =
           [(''complexity'', complexity), (''duplication'', duplication),
            (''test_quality'', test_quality), (''dependencies'', dependencies),
            (''churn'', churn), (''readability'', readability)]
     in
     py_bind (getitem config ''weights'') (\<lambda>weights.
     py_bind (weighted_term category_scores weights ''complexity'') (\<lambda>t1.
     py_bind (weighted_term category_scores weights ''duplication'') (\<lambda>t2.
     py_bind (weighted_term category_scores weights ''test_quality'') (\<lambda>t3.
     py_bind (weighted_term category_scores weights ''dependencies'') (\<lambda>t4.
     py_bind (weighted_term category_scores weights ''churn'') (\<lambda>t5.
     py_bind (weighted_term category_scores weights ''readability'') (\<lambda>t6.
     py_bind (truediv (t1 + t2 + t3 + t4 + t5 + t6) (sum_list (dict_values weights)))
       (\<lambda>overall_score.
     Inr (overall_score, category_scores)))))))))))))))"

section \<open>Summaries and tool results\<close>

text \<open>
  A metric summary and the result of an external tool are dictionaries whose values are
  booleans, numbers, strings, lists and further dictionaries.
\<close>

datatype val =
    VBool bool | VNum real | VStr string | VList "val list" | VDict "(string \<times> val) list"

text \<open>\<open>len(x)\<close>: defined on strings, lists and dictionaries.\<close>

fun py_len :: "val \<Rightarrow> py_error + nat" where
  "py_len (VStr s) = Inr (length s)"
| "py_len (VList xs) = Inr (length xs)"
| "py_len (VDict d) = Inr (length d)"
| "py_len (VBool b) = Inl TypeError"
| "py_len (VNum x) = Inl TypeError"


text \<open>\<open>s.startswith(p)\<close>, and \<open>p in s\<close> for strings: \<open>p\<close> occurs in \<open>s\<close>.\<close>

definition startswith :: "string \<Rightarrow> string \<Rightarrow> bool" where
  "startswith s p = (take (length p) s = p)"

fun str_in :: "string \<Rightarrow> string \<Rightarrow> bool" where
  "str_in p [] = (p = [])"
| "str_in p (c # s) = (startswith (c # s) p \<or> str_in p s)"

text \<open>\<open>s.lower()\<close>, on ASCII letters.\<close>

definition lower_char :: "char \<Rightarrow> char" where
  "lower_char c =
     (if (65::nat) \<le> of_char c \<and> of_char c \<le> (90::nat)
      then char_of (of_char c + (32::nat)) else c)"

definition lower :: "string \<Rightarrow> string" where
  "lower s = map lower_char s"



section \<open>scanner/go_tools.py: GoToolRunner.analyze_dependencies\<close>

text \<open>
  The file system and the \<open>go list\<close> commands are the environment: \<open>go_mod_exists\<close> is
  \<open>os.path.exists(go_mod_path)\<close>, and \<open>dependencies\<close> and \<open>outdated\<close> are the lists
  parsed from the output of the two commands, which run only when \<open>go.mod\<close> exists.
\<close>

definition analyze_dependencies :: "bool \<Rightarrow> val \<Rightarrow> val \<Rightarrow> val dict" where
  "analyze_dependencies go_mod_exists dependencies outdated =
     (if \<not> go_mod_exists then [(''error'', VStr ''Not a Go module'')]
      else [(''dependencies'', dependencies), (''outdated'', outdated)])"

section \<open>metrics/dependencies.py: DependencyAnalyzer\<close>

text \<open>
  \<open>govulncheck\<close> is the outcome of \<open>subprocess.run\<close>: the lines of the standard output,
  or the exception raised.  \<open>SubprocessError\<close> and \<open>FileNotFoundError\<close> are caught and
  leave the list of vulnerable dependencies empty; any other exception propagates.
\<close>

definition vulnerable_lines :: "py_error + string list \<Rightarrow> py_error + string list" where
  "vulnerable_lines govulncheck =
     (case govulncheck of
        Inr stdout_lines \<Rightarrow>
          Inr (filter (\<lambda>line. str_in ''vulnerability'' (lower line)) stdout_lines)
      | Inl e \<Rightarrow> if e = SubprocessError \<or> e = FileNotFoundError then Inr [] else Inl e)"

definition DependencyAnalyzer_analyze ::
  "config \<Rightarrow> val dict \<Rightarrow> py_error + string list \<Rightarrow> py_error + val dict" where
  "DependencyAnalyzer_analyze config dependency_info govulncheck =
     (if contains dependency_info ''error'' then
        Inr [(''is_module'', VBool False),
             (''dependency_count'', VNum 0),
             (''outdated_count'', VNum 0),
             (''outdated_percentage'', VNum 0),
             (''vulnerable_count'', VNum 0),
             (''score'', VNum 0)]
      else
        py_bind (getitem dependency_info ''dependencies'') (\<lambda>dependencies.
        py_bind (py_len dependencies) (\<lambda>dependency_count.
        py_bind (getitem dependency_info ''outdated'') (\<lambda>outdated.
        py_bind (py_len outdated) (\<lambda>outdated_count.
        py_bind (truediv (real outdated_count) (max 1 (real dependency_count))) (\<lambda>q.
        let outdated_percentage = q * 100 in
        py_bind (vulnerable_lines govulncheck) (\<lambda>vulnerable_deps.
        let vulnerable_count = length vulnerable_deps in
        py_bind (getitem2 config ''dependencies'' ''ideal_outdated'') (\<lambda>ideal_outdated.
        py_bind (getitem2 config ''dependencies'' ''worst_outdated'') (\<lambda>worst_outdated.
        py_bind (normalize_percentage outdated_percentage ideal_outdated worst_outdated)
          (\<lambda>outdated_score.
        py_bind (getitem2 config ''dependencies'' ''worst_vulnerabilities'')
          (\<lambda>worst_vulnerabilities.
        py_bind (normalize_count (real vulnerable_count) 0 worst_vulnerabilities)
          (\<lambda>vulnerable_score.
        py_bind (getitem2 config ''dependencies'' ''outdated_weight'') (\<lambda>ow1.
        py_bind (getitem2 config ''dependencies'' ''vulnerable_weight'') (\<lambda>vw1.
        py_bind (getitem2 config ''dependencies'' ''outdated_weight'') (\<lambda>ow2.
        py_bind (getitem2 config ''dependencies'' ''vulnerable_weight'') (\<lambda>vw2.
        py_bind (truediv (outdated_score * ow1 + vulnerable_score * vw1) (ow2 + vw2))
          (\<lambda>overall_score.
        Inr [(''is_module'', VBool True),
             (''dependency_count'', VNum (real dependency_count)),
             (''dependencies'', dependencies),
             (''outdated_count'', VNum (real outdated_count)),
             (''outdated_percentage'', VNum outdated_percentage),
             (''outdated_dependencies'', outdated),
             (''vulnerable_count'', VNum (real vulnerable_count)),
             (''vulnerable_dependencies'', VList (map VStr vulnerable_deps)),
             (''outdated_score'', VNum outdated_score),
             (''vulnerable_score'', VNum vulnerable_score),
             (''score'', VNum overall_score)])))))))))))))))))"

section \<open>metrics/test_quality.py: TestQualityAnalyzer\<close>




section \<open>Specification vocabulary\<close>

text \<open>
  The specification's words for the normalizer contract: \<open>clamp\<close> is the formula's
  clamping to a closed interval, and \<open>is_score\<close> says that a call returned (raised
  nothing) and that what it returned lies in \<open>[0,100]\<close>.
\<close>

definition clamp :: "real \<Rightarrow> real \<Rightarrow> real \<Rightarrow> real" where
  "clamp x lo hi = (if x < lo then lo else if x > hi then hi else x)"

definition is_score :: "py_error + real \<Rightarrow> bool" where
  "is_score r = (case r of Inl e \<Rightarrow> False | Inr s \<Rightarrow> 0 \<le> s \<and> s \<le> 100)"

text \<open>The six fixed categories.\<close>

definition categories :: "string list" where
  "categories = [''complexity'', ''duplication'', ''test_quality'', ''dependencies'', ''churn'', ''readability'']"



section \<open>Example inputs\<close>

text \<open>
  The configuration, scores and thresholds of the specification's examples, and a
  configuration section for the test-quality collector.
\<close>

definition example_config :: config where
  "example_config =
     [(''thresholds'', [(''low'', 0), (''medium'', 40), (''high'', 70)]),
      (''weights'', [(''complexity'', 1), (''duplication'', 1), (''test_quality'', 1),
                     (''dependencies'', 1), (''churn'', 1), (''readability'', 1)])]"

definition example_metrics :: "(real dict) dict" where
  "example_metrics =
     [(''complexity'', [(''overall_score'', 80)]), (''duplication'', [(''score'', 20)]),
      (''test_quality'', [(''overall_score'', 50)]), (''dependencies'', [(''score'', 0)]),
      (''churn'', [(''score'', 40)]), (''readability'', [(''score'', 60)])]"

definition example_thresholds :: "real dict" where
  "example_thresholds = [(''low'', 0), (''medium'', 40), (''high'', 70)]"


section \<open>Helper facts\<close>

lemma py_bind_Inr: "py_bind (Inr x) f = f x"
  by (simp add: py_bind_def)

lemma py_bind_Inl: "py_bind (Inl e) f = Inl e"
  by (simp add: py_bind_def)

lemma getitem_Inr_iff: "getitem d k = Inr v \<longleftrightarrow> map_of d k = Some v"
  by (simp add: getitem_def split: option.splits)

section \<open>Normalizer: helper facts\<close>

lemma normalize_degenerate: "normalize v x x = Inr 0"
  by (simp add: normalize_def)

lemma normalize_proper:
  "lo \<noteq> hi \<Longrightarrow> normalize v lo hi = Inr (max 0 (min 100 ((v - lo) / (hi - lo) * 100)))"
  by (simp add: normalize_def truediv_def py_bind_def Let_def)

lemma normalize_cases:
  obtains s where "normalize v lo hi = Inr s" and "0 \<le> s" and "s \<le> 100"
proof (cases "lo = hi")
  case True
  then have "normalize v lo hi = Inr 0" by (simp add: normalize_degenerate)
  then show ?thesis using that by simp
next
  case False
  then have "normalize v lo hi = Inr (max 0 (min 100 ((v - lo) / (hi - lo) * 100)))"
    by (rule normalize_proper)
  then show ?thesis using that by simp
qed

lemma is_score_normalize: "is_score (normalize v lo hi)"
proof -
  obtain s where "normalize v lo hi = Inr s" "0 \<le> s" "s \<le> 100"
    by (rule normalize_cases)
  then show ?thesis by (simp add: is_score_def)
qed

lemma normalize_inverse_eq:
  "normalize v lo hi = Inr s \<Longrightarrow> normalize_inverse v lo hi = Inr (100 - s)"
  by (simp add: normalize_inverse_def py_bind_def)

lemma is_score_normalize_inverse: "is_score (normalize_inverse v lo hi)"
proof -
  obtain s where s: "normalize v lo hi = Inr s" "0 \<le> s" "s \<le> 100"
    by (rule normalize_cases)
  from s(1) have "normalize_inverse v lo hi = Inr (100 - s)"
    by (rule normalize_inverse_eq)
  with s(2,3) show ?thesis by (simp add: is_score_def)
qed

section \<open>Normalizer: the claims\<close>

text \<open>
  C2.  For all real \<open>value\<close>, \<open>min_value\<close> and \<open>max_value\<close>, \<open>normalize\<close> raises no
  exception and returns a value in \<open>[0,100]\<close>; when \<open>min_value \<noteq> max_value\<close> that value
  is \<open>clamp(((value - min_value) / (max_value - min_value)) * 100, 0, 100)\<close>.  The same
  totality and range hold for \<open>normalize_inverse\<close> and for each of the six directional
  wrappers.
\<close>

theorem normalize_total_in_range:
  "is_score (normalize v lo hi)
   \<and> (lo \<noteq> hi \<longrightarrow> normalize v lo hi = Inr (clamp (((v - lo) / (hi - lo)) * 100) 0 100))
   \<and> is_score (normalize_inverse v lo hi)
   \<and> is_score (normalize_complexity v lo hi)
   \<and> is_score (normalize_percentage v lo hi)
   \<and> is_score (normalize_inverse_percentage v lo hi)
   \<and> is_score (normalize_count v lo hi)
   \<and> is_score (normalize_ratio v lo hi)
   \<and> is_score (normalize_churn v lo hi)"
proof -
  have formula: "lo \<noteq> hi \<longrightarrow> normalize v lo hi = Inr (clamp (((v - lo) / (hi - lo)) * 100) 0 100)"
    by (auto simp add: normalize_proper clamp_def)
  have ratio: "is_score (normalize_ratio v lo hi)"
    by (simp add: normalize_ratio_def is_score_normalize is_score_normalize_inverse)
  show ?thesis
    using formula ratio
    by (simp add: is_score_normalize is_score_normalize_inverse normalize_complexity_def
        normalize_percentage_def normalize_inverse_percentage_def normalize_count_def
        normalize_churn_def)
qed

theorem normalize_total_in_range_witness:
  "(0::real) \<noteq> 10
   \<and> normalize 25 0 10 = Inr 100 \<and> normalize (-3) 0 10 = Inr 0 \<and> normalize 4 0 10 = Inr 40
   \<and> clamp (((25 - 0) / (10 - 0)) * 100) 0 100 = 100
   \<and> is_score (normalize_ratio 4 10 0)"
  using normalize_total_in_range [of 25 0 10] normalize_total_in_range [of "-3" 0 10]
    normalize_total_in_range [of 4 0 10] normalize_total_in_range [of 4 10 0]
  by (simp add: clamp_def)


text \<open>
  C4.  For every real \<open>value\<close> and every \<open>X\<close>, \<open>normalize(value, X, X)\<close> returns 0: a
  degenerate range is not an error.
\<close>

theorem normalize_degenerate_range: "normalize v x x = Inr 0"
  by (simp add: normalize_def)

text \<open>
  C6.  \<open>normalize_ratio(value, ideal, worst)\<close> is \<open>normalize_inverse(value, worst, ideal)\<close>
  when \<open>ideal > worst\<close> and \<open>normalize(value, ideal, worst)\<close> otherwise; in particular
  \<open>normalize_ratio(v, 10, 1) = normalize_inverse(v, 1, 10)\<close> and
  \<open>normalize_ratio(v, 1, 10) = normalize(v, 1, 10)\<close>.
\<close>

theorem normalize_ratio_direction:
  "(ideal > worst \<longrightarrow> normalize_ratio v ideal worst = normalize_inverse v worst ideal)
   \<and> (\<not> ideal > worst \<longrightarrow> normalize_ratio v ideal worst = normalize v ideal worst)
   \<and> normalize_ratio v 10 1 = normalize_inverse v 1 10
   \<and> normalize_ratio v 1 10 = normalize v 1 10"
  by (simp add: normalize_ratio_def)

theorem normalize_ratio_direction_witness:
  "(10::real) > 1 \<and> \<not> (1::real) > 10
   \<and> normalize_ratio 4 10 1 = normalize_inverse 4 1 10
   \<and> normalize_ratio 4 1 10 = normalize 4 1 10
   \<and> normalize_ratio 4 1 1 = normalize 4 1 1"
  using normalize_ratio_direction [of 1 10 4] normalize_ratio_direction [of 10 1 4]
    normalize_ratio_direction [of 1 1 4]
  by simp

text \<open>
  C10.  For every real \<open>v\<close> and every \<open>X\<close>, \<open>normalize_inverse(v, X, X)\<close> returns 100, and
  so does \<open>normalize_inverse_percentage(v, X, X)\<close>: on a degenerate range the inverse
  functions give the worst score, not the 0 that \<open>normalize\<close> gives.
\<close>

theorem normalize_inverse_degenerate_range:
  "normalize_inverse v x x = Inr 100 \<and> normalize_inverse_percentage v x x = Inr 100"
  by (simp add: normalize_inverse_percentage_def normalize_inverse_def normalize_def py_bind_def)

section \<open>Aggregator: helper facts\<close>

lemma sum_values_distinct:
  fixes d :: "real dict"
  shows "distinct (map fst d) \<Longrightarrow> sum_list (dict_values d) = (\<Sum>k\<in>set (map fst d). the (map_of d k))"
proof (induction d)
  case Nil
  then show ?case by (simp add: dict_values_def)
next
  case (Cons p d)
  obtain k v where p: "p = (k, v)" by (cases p)
  from Cons.prems p have k: "k \<notin> fst ` set d" and d: "distinct (map fst d)" by auto
  have "(\<Sum>x\<in>set (map fst (p # d)). the (map_of (p # d) x))
      = the (map_of (p # d) k) + (\<Sum>x\<in>fst ` set d. the (map_of (p # d) x))"
    using k p by simp
  also have "(\<Sum>x\<in>fst ` set d. the (map_of (p # d) x)) = (\<Sum>x\<in>fst ` set d. the (map_of d x))"
    using k p by (intro sum.cong) auto
  finally show ?case using Cons.IH [OF d] p by (simp add: dict_values_def)
qed

lemma sum_six_weights:
  fixes ws :: "real dict"
  assumes "distinct (map fst ws)" and "set (map fst ws) = set categories"
    and "getitem ws ''complexity'' = Inr w1" and "getitem ws ''duplication'' = Inr w2"
    and "getitem ws ''test_quality'' = Inr w3" and "getitem ws ''dependencies'' = Inr w4"
    and "getitem ws ''churn'' = Inr w5" and "getitem ws ''readability'' = Inr w6"
  shows "sum_list (dict_values ws) = w1 + w2 + w3 + w4 + w5 + w6"
proof -
  have "sum_list (dict_values ws) = (\<Sum>k\<in>set categories. the (map_of ws k))"
    using sum_values_distinct [OF assms(1)] assms(2) by simp
  also have "\<dots> = w1 + w2 + w3 + w4 + w5 + w6"
    using assms(3-8) by (simp add: categories_def getitem_Inr_iff)
  finally show ?thesis .
qed

lemma weighted_term_eq:
  "getitem cs c = Inr s \<Longrightarrow> getitem ws c = Inr w \<Longrightarrow> weighted_term cs ws c = Inr (s * w)"
  by (simp add: weighted_term_def py_bind_def)

lemma aggregate_returns:
  fixes ws :: "real dict"
  assumes "getitem2 metrics ''complexity'' ''overall_score'' = Inr s1"
    and "getitem2 metrics ''duplication'' ''score'' = Inr s2"
    and "getitem2 metrics ''test_quality'' ''overall_score'' = Inr s3"
    and "getitem2 metrics ''dependencies'' ''score'' = Inr s4"
    and "getitem2 metrics ''churn'' ''score'' = Inr s5"
    and "getitem2 metrics ''readability'' ''score'' = Inr s6"
    and "getitem config ''weights'' = Inr ws"
    and "distinct (map fst ws)" and "set (map fst ws) = set categories"
    and "getitem ws ''complexity'' = Inr w1" and "getitem ws ''duplication'' = Inr w2"
    and "getitem ws ''test_quality'' = Inr w3" and "getitem ws ''dependencies'' = Inr w4"
    and "getitem ws ''churn'' = Inr w5" and "getitem ws ''readability'' = Inr w6"
    and "w1 + w2 + w3 + w4 + w5 + w6 \<noteq> 0"
  shows "aggregate config metrics =
           Inr ((s1 * w1 + s2 * w2 + s3 * w3 + s4 * w4 + s5 * w5 + s6 * w6)
                  / (w1 + w2 + w3 + w4 + w5 + w6),
                [(''complexity'', s1), (''duplication'', s2), (''test_quality'', s3),
                 (''dependencies'', s4), (''churn'', s5), (''readability'', s6)])"
proof -
  let ?cs = "[(''complexity'', s1), (''duplication'', s2), (''test_quality'', s3),
              (''dependencies'', s4), (''churn'', s5), (''readability'', s6)]"
  have total: "sum_list (dict_values ws) = w1 + w2 + w3 + w4 + w5 + w6"
    using assms(8-15) by (rule sum_six_weights)
  have t1: "weighted_term ?cs ws ''complexity'' = Inr (s1 * w1)"
    using assms(10) by (intro weighted_term_eq) (simp_all add: getitem_def)
  have t2: "weighted_term ?cs ws ''duplication'' = Inr (s2 * w2)"
    using assms(11) by (intro weighted_term_eq) (simp_all add: getitem_def)
  have t3: "weighted_term ?cs ws ''test_quality'' = Inr (s3 * w3)"
    using assms(12) by (intro weighted_term_eq) (simp_all add: getitem_def)
  have t4: "weighted_term ?cs ws ''dependencies'' = Inr (s4 * w4)"
    using assms(13) by (intro weighted_term_eq) (simp_all add: getitem_def)
  have t5: "weighted_term ?cs ws ''churn'' = Inr (s5 * w5)"
    using assms(14) by (intro weighted_term_eq) (simp_all add: getitem_def)
  have t6: "weighted_term ?cs ws ''readability'' = Inr (s6 * w6)"
    using assms(15) by (intro weighted_term_eq) (simp_all add: getitem_def)
  show ?thesis
    unfolding aggregate_def
    by (simp only: assms(1-7) py_bind_Inr Let_def t1 t2 t3 t4 t5 t6 total)
       (simp add: truediv_def assms(16) py_bind_Inr)
qed

section \<open>Aggregator: the claims\<close>

text \<open>
  C1.  When \<open>metrics\<close> holds the six categories with their score fields (\<open>overall_score\<close>
  for complexity and test quality, \<open>score\<close> for the others) and the weights dictionary
  has exactly the six category keys and a nonzero total, \<open>aggregate\<close> returns as overall
  score the weighted mean \<open>\<Sum> score * weight / \<Sum> weight\<close> over the six categories; when the
  six weights are all 1 this is the arithmetic mean of the six scores.  The example of the
  specification gives \<open>125 / 3 = 41.666...\<close>.
\<close>

theorem aggregate_weighted_mean:
  fixes ws :: "real dict"
  assumes "getitem2 metrics ''complexity'' ''overall_score'' = Inr s1"
    and "getitem2 metrics ''duplication'' ''score'' = Inr s2"
    and "getitem2 metrics ''test_quality'' ''overall_score'' = Inr s3"
    and "getitem2 metrics ''dependencies'' ''score'' = Inr s4"
    and "getitem2 metrics ''churn'' ''score'' = Inr s5"
    and "getitem2 metrics ''readability'' ''score'' = Inr s6"
    and "getitem config ''weights'' = Inr ws"
    and "distinct (map fst ws)" and "set (map fst ws) = set categories"
    and "getitem ws ''complexity'' = Inr w1" and "getitem ws ''duplication'' = Inr w2"
    and "getitem ws ''test_quality'' = Inr w3" and "getitem ws ''dependencies'' = Inr w4"
    and "getitem ws ''churn'' = Inr w5" and "getitem ws ''readability'' = Inr w6"
    and "w1 + w2 + w3 + w4 + w5 + w6 \<noteq> 0"
  shows "\<exists>overall_score category_scores.
           aggregate config metrics = Inr (overall_score, category_scores)
         \<and> overall_score = (s1 * w1 + s2 * w2 + s3 * w3 + s4 * w4 + s5 * w5 + s6 * w6)
                             / (w1 + w2 + w3 + w4 + w5 + w6)
         \<and> (w1 = 1 \<and> w2 = 1 \<and> w3 = 1 \<and> w4 = 1 \<and> w5 = 1 \<and> w6 = 1
              \<longrightarrow> overall_score = (s1 + s2 + s3 + s4 + s5 + s6) / 6)"
  using aggregate_returns [OF assms] by simp

theorem aggregate_weighted_mean_witness:
  "aggregate example_config example_metrics =
     Inr (125 / 3,
          [(''complexity'', 80), (''duplication'', 20), (''test_quality'', 50),
           (''dependencies'', 0), (''churn'', 40), (''readability'', 60)])"
proof -
  let ?ws = "[(''complexity'', 1), (''duplication'', 1), (''test_quality'', 1),
              (''dependencies'', 1), (''churn'', 1), (''readability'', 1::real)]"
  have "\<exists>overall_score category_scores.
           aggregate example_config example_metrics = Inr (overall_score, category_scores)
         \<and> overall_score = (80 * 1 + 20 * 1 + 50 * 1 + 0 * 1 + 40 * 1 + 60 * 1)
                             / (1 + 1 + 1 + 1 + 1 + 1)
         \<and> ((1::real) = 1 \<and> (1::real) = 1 \<and> (1::real) = 1 \<and> (1::real) = 1 \<and> (1::real) = 1 \<and> (1::real) = 1
              \<longrightarrow> overall_score = (80 + 20 + 50 + 0 + 40 + 60) / 6)"
    by (rule aggregate_weighted_mean [where ws = ?ws])
       (simp_all add: example_config_def example_metrics_def getitem2_def getitem_def
          py_bind_def categories_def)
  then obtain ov cs where r: "aggregate example_config example_metrics = Inr (ov, cs)"
    and ov: "ov = (80 + 20 + 50 + 0 + 40 + 60) / 6" by auto
  have "aggregate example_config example_metrics =
     Inr ((80 * 1 + 20 * 1 + 50 * 1 + 0 * 1 + 40 * 1 + 60 * 1) / (1 + 1 + 1 + 1 + 1 + 1),
          [(''complexity'', 80), (''duplication'', 20), (''test_quality'', 50),
           (''dependencies'', 0), (''churn'', 40), (''readability'', 60)])"
    by (rule aggregate_returns [where ws = ?ws])
       (simp_all add: example_config_def example_metrics_def getitem2_def getitem_def
          py_bind_def categories_def)
  with r ov show ?thesis by simp
qed

text \<open>
  C7.  When each of the six category scores lies in \<open>[0,100]\<close> and the weights dictionary
  has exactly the six category keys with nonnegative values that are not all zero,
  \<open>aggregate\<close> returns an overall score in \<open>[0,100]\<close>.
\<close>

theorem aggregate_in_range:
  fixes ws :: "real dict"
  assumes m: "getitem2 metrics ''complexity'' ''overall_score'' = Inr s1"
     "getitem2 metrics ''duplication'' ''score'' = Inr s2"
     "getitem2 metrics ''test_quality'' ''overall_score'' = Inr s3"
     "getitem2 metrics ''dependencies'' ''score'' = Inr s4"
     "getitem2 metrics ''churn'' ''score'' = Inr s5"
     "getitem2 metrics ''readability'' ''score'' = Inr s6"
    and c: "getitem config ''weights'' = Inr ws"
    and k: "distinct (map fst ws)" "set (map fst ws) = set categories"
    and w: "getitem ws ''complexity'' = Inr w1" "getitem ws ''duplication'' = Inr w2"
     "getitem ws ''test_quality'' = Inr w3" "getitem ws ''dependencies'' = Inr w4"
     "getitem ws ''churn'' = Inr w5" "getitem ws ''readability'' = Inr w6"
    and srange: "0 \<le> s1 \<and> s1 \<le> 100" "0 \<le> s2 \<and> s2 \<le> 100" "0 \<le> s3 \<and> s3 \<le> 100"
     "0 \<le> s4 \<and> s4 \<le> 100" "0 \<le> s5 \<and> s5 \<le> 100" "0 \<le> s6 \<and> s6 \<le> 100"
    and nonneg: "0 \<le> w1" "0 \<le> w2" "0 \<le> w3" "0 \<le> w4" "0 \<le> w5" "0 \<le> w6"
    and notall: "\<not> (w1 = 0 \<and> w2 = 0 \<and> w3 = 0 \<and> w4 = 0 \<and> w5 = 0 \<and> w6 = 0)"
  shows "\<exists>overall_score category_scores.
           aggregate config metrics = Inr (overall_score, category_scores)
         \<and> 0 \<le> overall_score \<and> overall_score \<le> 100"
proof -
  let ?N = "s1 * w1 + s2 * w2 + s3 * w3 + s4 * w4 + s5 * w5 + s6 * w6"
  let ?D = "w1 + w2 + w3 + w4 + w5 + w6"
  have pos: "0 < ?D" using nonneg notall by linarith
  then have nz: "?D \<noteq> 0" by simp
  have r: "aggregate config metrics =
             Inr (?N / ?D, [(''complexity'', s1), (''duplication'', s2), (''test_quality'', s3),
                 (''dependencies'', s4), (''churn'', s5), (''readability'', s6)])"
    using m c k w nz by (rule aggregate_returns)
  have lo: "0 \<le> s1 * w1" "0 \<le> s2 * w2" "0 \<le> s3 * w3" "0 \<le> s4 * w4" "0 \<le> s5 * w5" "0 \<le> s6 * w6"
    using srange nonneg by simp_all
  have hi: "s1 * w1 \<le> 100 * w1" "s2 * w2 \<le> 100 * w2" "s3 * w3 \<le> 100 * w3"
    "s4 * w4 \<le> 100 * w4" "s5 * w5 \<le> 100 * w5" "s6 * w6 \<le> 100 * w6"
    using srange nonneg by (simp_all add: mult_right_mono)
  have "0 \<le> ?N" using lo by linarith
  then have ge: "0 \<le> ?N / ?D" using pos by simp
  have "100 * ?D = 100 * w1 + 100 * w2 + 100 * w3 + 100 * w4 + 100 * w5 + 100 * w6"
    by simp
  then have "?N \<le> 100 * ?D" using hi by linarith
  then have le: "?N / ?D \<le> 100" using pos by (simp add: pos_divide_le_eq)
  from r ge le show ?thesis by blast
qed

theorem aggregate_in_range_witness:
  "\<exists>overall_score category_scores.
      aggregate example_config example_metrics = Inr (overall_score, category_scores)
    \<and> 0 \<le> overall_score \<and> overall_score \<le> 100"
  by (rule aggregate_in_range [where ?ws = "[(''complexity'', 1), (''duplication'', 1), (''test_quality'', 1),
              (''dependencies'', 1), (''churn'', 1), (''readability'', 1::real)]"
          and ?s1.0 = 80 and ?s2.0 = 20 and ?s3.0 = 50 and ?s4.0 = 0 and ?s5.0 = 40 and ?s6.0 = 60
          and ?w1.0 = 1 and ?w2.0 = 1 and ?w3.0 = 1 and ?w4.0 = 1 and ?w5.0 = 1 and ?w6.0 = 1])
     (simp_all add: example_config_def example_metrics_def getitem2_def getitem_def
          py_bind_def categories_def)

section \<open>Threshold classifier: the claim\<close>

text \<open>
  C5.  For every score and all thresholds holding \<open>medium\<close> and \<open>high\<close>,
  \<open>get_debt_level\<close> returns \<open>high\<close> exactly when \<open>score \<ge> high\<close>, \<open>medium\<close> exactly
  when \<open>medium \<le> score < high\<close>, and \<open>low\<close> otherwise, so a boundary value belongs to the
  higher level.  With thresholds \<open>{low: 0, medium: 40, high: 70}\<close>: 40 is medium, 39.999
  is low, 70 is high and 69.999 is medium.
\<close>

theorem get_debt_level_boundaries:
  assumes "getitem thresholds ''high'' = Inr high"
    and "getitem thresholds ''medium'' = Inr medium"
  shows "\<exists>level. get_debt_level thresholds score = Inr level
      \<and> (level = ''high'' \<longleftrightarrow> score \<ge> high)
      \<and> (level = ''medium'' \<longleftrightarrow> medium \<le> score \<and> score < high)
      \<and> (level = ''low'' \<longleftrightarrow> \<not> score \<ge> high \<and> \<not> (medium \<le> score \<and> score < high))"
  using assms by (auto simp add: get_debt_level_def py_bind_def)

theorem get_debt_level_boundaries_witness:
  "get_debt_level example_thresholds 40 = Inr ''medium''
   \<and> get_debt_level example_thresholds (39999 / 1000) = Inr ''low''
   \<and> get_debt_level example_thresholds 70 = Inr ''high''
   \<and> get_debt_level example_thresholds (69999 / 1000) = Inr ''medium''"
proof -
  have h: "getitem example_thresholds ''high'' = Inr 70"
    and m: "getitem example_thresholds ''medium'' = Inr 40"
    by (simp_all add: example_thresholds_def getitem_def)
  show ?thesis
    using get_debt_level_boundaries [OF h m, of 40]
      get_debt_level_boundaries [OF h m, of "39999 / 1000"]
      get_debt_level_boundaries [OF h m, of 70]
      get_debt_level_boundaries [OF h m, of "69999 / 1000"]
    by auto
qed

section \<open>Dependency collector: the claim\<close>

text \<open>
  C8.  When the dependency analysis reports an error (the target is not a Go module),
  \<open>DependencyAnalyzer.analyze\<close> returns a summary with \<open>score = 0\<close> and
  \<open>is_module = False\<close>, whatever the configuration holds; it raises nothing.
\<close>

theorem non_module_scores_zero:
  assumes "contains dependency_info ''error''"
  shows "\<exists>summary. DependencyAnalyzer_analyze config dependency_info govulncheck = Inr summary
           \<and> getitem summary ''score'' = Inr (VNum 0)
           \<and> getitem summary ''is_module'' = Inr (VBool False)"
  using assms by (simp add: DependencyAnalyzer_analyze_def getitem_def)

theorem non_module_scores_zero_witness:
  "contains (analyze_dependencies False (VList []) (VList [])) ''error''
   \<and> (\<exists>summary. DependencyAnalyzer_analyze [] (analyze_dependencies False (VList []) (VList []))
                    (Inl OSError) = Inr summary
           \<and> getitem summary ''score'' = Inr (VNum 0)
           \<and> getitem summary ''is_module'' = Inr (VBool False))"
proof -
  have h: "contains (analyze_dependencies False (VList []) (VList [])) ''error''"
    by (simp add: contains_def analyze_dependencies_def)
  show ?thesis
    using h non_module_scores_zero [OF h, of "[]" "Inl OSError"] by simp
qed

section \<open>Test-quality collector: helper facts\<close>







section \<open>Test-quality collector: the claim\<close>



end
